theory Spec2Isabelle
  imports Complex_Main
begin

section \<open>The JavaScript runtime the grid code calls\<close>

text \<open>
  The grid code is TypeScript running on the ECMAScript built-ins \<^verbatim>\<open>String.prototype.trim\<close>,
  \<^verbatim>\<open>String.prototype.replace\<close>, \<^verbatim>\<open>Number\<close>, \<^verbatim>\<open>Number.prototype.toFixed\<close> and \<^verbatim>\<open>Date\<close>.
  They are modelled as follows.

  \<^item> A string is a \<^typ>\<open>string\<close> of ASCII characters; white space is the ASCII part of the
    ECMAScript white space and line terminator set (TAB, LF, VT, FF, CR, SP).
  \<^item> A number is \<open>NaN\<close>, an infinity, or a finite value \<open>Num q\<close> carrying its exact
    mathematical value \<open>q\<close>. The range and the rounding of binary64 are not modelled, and
    neither is the sign of zero (the program cannot observe it: \<^verbatim>\<open>-0 === 0\<close> holds,
    and \<^verbatim>\<open>toFixed\<close> and \<^verbatim>\<open>String\<close> print both zeros alike).
  \<^item> What ECMAScript leaves to the implementation or what depends on binary64 is a field
    of the environment \<open>js_env\<close> that every function using it takes as an argument:
    \<^verbatim>\<open>String(x)\<close> of a number, \<^verbatim>\<open>Date.parse\<close> outside the date-only ISO form, and the
    local-time getters of \<^verbatim>\<open>Date\<close>.
\<close>

subsection \<open>Strings\<close>

definition is_space :: "char \<Rightarrow> bool" where
  "is_space c \<longleftrightarrow> c \<in> set [CHR 0x09, CHR 0x0A, CHR 0x0B, CHR 0x0C, CHR 0x0D, CHR '' '']"

definition trim :: "string \<Rightarrow> string" where
  \<comment> \<open>\<^verbatim>\<open>s.trim()\<close>\<close>
  "trim s = rev (dropWhile is_space (rev (dropWhile is_space s)))"

fun join :: "string \<Rightarrow> string list \<Rightarrow> string" where
  \<comment> \<open>\<^verbatim>\<open>xs.join(sep)\<close>\<close>
  "join sep [] = []"
| "join sep [x] = x"
| "join sep (x # y # ys) = x @ sep @ join sep (y # ys)"

definition padStart :: "nat \<Rightarrow> char \<Rightarrow> string \<Rightarrow> string" where
  \<comment> \<open>\<^verbatim>\<open>s.padStart(n, c)\<close> for a one-character filler\<close>
  "padStart n c s = replicate (n - length s) c @ s"

definition is_digit :: "char \<Rightarrow> bool" where
  "is_digit c \<longleftrightarrow> c \<in> set ''0123456789''"

definition digit_value :: "char \<Rightarrow> nat" where
  "digit_value c =
     (if c \<in> set ''0123456789'' then of_char c - 48
      else if c \<in> set ''abcdef'' then of_char c - 87
      else of_char c - 55)"

definition digits_value :: "nat \<Rightarrow> string \<Rightarrow> nat" where
  \<comment> \<open>the value of a digit string in base \<open>b\<close>\<close>
  "digits_value b s = foldl (\<lambda>a c. b * a + digit_value c) 0 s"

definition digit_char :: "nat \<Rightarrow> char" where
  "digit_char d = ''0123456789'' ! d"

fun show_nat :: "nat \<Rightarrow> string" where
  "show_nat n = (if n < 10 then [digit_char n] else show_nat (n div 10) @ [digit_char (n mod 10)])"

declare show_nat.simps [simp del]

definition show_int :: "int \<Rightarrow> string" where
  \<comment> \<open>\<^verbatim>\<open>String(i)\<close> of an integer below \<open>10^21\<close> in size\<close>
  "show_int i = (if i < 0 then CHR ''-'' # show_nat (nat (- i)) else show_nat (nat i))"

subsection \<open>Numbers: \<^verbatim>\<open>Number(s)\<close> and \<^verbatim>\<open>toFixed\<close>\<close>

datatype number = Num rat | NaN | Infinity | NegInfinity

datatype js_error = RangeError | TypeError

fun negate :: "number \<Rightarrow> number" where
  "negate (Num q) = Num (- q)"
| "negate NaN = NaN"
| "negate Infinity = NegInfinity"
| "negate NegInfinity = Infinity"

definition pow10 :: "int \<Rightarrow> rat" where
  "pow10 e = (if 0 \<le> e then 10 ^ nat e else 1 / 10 ^ nat (- e))"

definition SignedInteger :: "string \<Rightarrow> int option" where
  \<comment> \<open>the exponent's \<^verbatim>\<open>SignedInteger\<close>: digits with an optional sign\<close>
  "SignedInteger s =
     (case s of
        [] \<Rightarrow> None
      | c # r \<Rightarrow>
          if c = CHR ''+'' then
            (if r \<noteq> [] \<and> list_all is_digit r then Some (int (digits_value 10 r)) else None)
          else if c = CHR ''-'' then
            (if r \<noteq> [] \<and> list_all is_digit r then Some (- int (digits_value 10 r)) else None)
          else if list_all is_digit s then Some (int (digits_value 10 s))
          else None)"

definition StrUnsignedDecimalLiteral :: "string \<Rightarrow> number option" where
  \<comment> \<open>\<^verbatim>\<open>Infinity\<close>, \<^verbatim>\<open>D+ . D* Exp?\<close>, \<^verbatim>\<open>. D+ Exp?\<close> or \<^verbatim>\<open>D+ Exp?\<close>\<close>
  "StrUnsignedDecimalLiteral s =
     (if s = ''Infinity'' then Some Infinity
      else
        let is_e = (\<lambda>c. c = CHR ''e'' \<or> c = CHR ''E'');
            mant = takeWhile (\<lambda>c. \<not> is_e c) s;
            rest = dropWhile (\<lambda>c. \<not> is_e c) s;
            ip = takeWhile (\<lambda>c. c \<noteq> CHR ''.'') mant;
            fp = drop 1 (dropWhile (\<lambda>c. c \<noteq> CHR ''.'') mant);
            ex = (if rest = [] then Some 0 else SignedInteger (drop 1 rest))
        in if list_all is_digit ip \<and> list_all is_digit fp \<and> (ip \<noteq> [] \<or> fp \<noteq> []) then
             (case ex of
                None \<Rightarrow> None
              | Some e \<Rightarrow>
                  Some (Num ((of_nat (digits_value 10 ip)
                              + of_nat (digits_value 10 fp) / 10 ^ length fp) * pow10 e)))
           else None)"

definition StrDecimalLiteral :: "string \<Rightarrow> number option" where
  "StrDecimalLiteral s =
     (case s of
        [] \<Rightarrow> None
      | c # r \<Rightarrow>
          if c = CHR ''+'' then StrUnsignedDecimalLiteral r
          else if c = CHR ''-'' then map_option negate (StrUnsignedDecimalLiteral r)
          else StrUnsignedDecimalLiteral s)"

definition NonDecimalIntegerLiteral :: "string \<Rightarrow> number option" where
  \<comment> \<open>\<^verbatim>\<open>0b\<close>, \<^verbatim>\<open>0o\<close> and \<^verbatim>\<open>0x\<close> literals (no sign)\<close>
  "NonDecimalIntegerLiteral s =
     (case s of
        z # x # ds \<Rightarrow>
          if z = CHR ''0'' \<and> ds \<noteq> [] then
            (if x \<in> set ''bB'' \<and> list_all (\<lambda>c. c \<in> set ''01'') ds
               then Some (Num (of_nat (digits_value 2 ds)))
             else if x \<in> set ''oO'' \<and> list_all (\<lambda>c. c \<in> set ''01234567'') ds
               then Some (Num (of_nat (digits_value 8 ds)))
             else if x \<in> set ''xX'' \<and> list_all (\<lambda>c. c \<in> set ''0123456789abcdefABCDEF'') ds
               then Some (Num (of_nat (digits_value 16 ds)))
             else None)
          else None
      | _ \<Rightarrow> None)"

definition js_Number :: "string \<Rightarrow> number" where
  \<comment> \<open>\<^verbatim>\<open>Number(s)\<close> of a string: the empty or blank string is \<open>0\<close>, a string outside the
      grammar is \<open>NaN\<close>\<close>
  "js_Number s =
     (let t = trim s in
      if t = [] then Num 0
      else case StrDecimalLiteral t of
             Some n \<Rightarrow> n
           | None \<Rightarrow> (case NonDecimalIntegerLiteral t of Some n \<Rightarrow> n | None \<Rightarrow> NaN))"

fun Number_isFinite :: "number \<Rightarrow> bool" where
  "Number_isFinite (Num q) = True"
| "Number_isFinite _ = False"

subsection \<open>The environment\<close>

record js_env =
  String_of_number :: "rat \<Rightarrow> string"
    \<comment> \<open>\<^verbatim>\<open>String(x)\<close> of a finite number (the shortest digits that read back as the same
        binary64 value)\<close>
  Date_parse_other :: "string \<Rightarrow> int option"
    \<comment> \<open>\<^verbatim>\<open>Date.parse\<close> on every string that is not a calendar date \<^verbatim>\<open>YYYY-MM-DD\<close>: the
        time value in milliseconds, \<open>None\<close> for \<open>NaN\<close>\<close>
  getFullYear :: "int \<Rightarrow> int"
    \<comment> \<open>the local-time year of a time value\<close>
  getMonth :: "int \<Rightarrow> nat"
    \<comment> \<open>the local-time month of a time value, from 0\<close>
  getDate :: "int \<Rightarrow> nat"
    \<comment> \<open>the local-time day of the month of a time value\<close>

definition toFixed :: "js_env \<Rightarrow> rat \<Rightarrow> nat \<Rightarrow> js_error + string" where
  \<comment> \<open>\<^verbatim>\<open>x.toFixed(f)\<close> of a finite \<open>x\<close>: the sign is taken from \<open>x\<close> before it is rounded,
      and a tie rounds to the larger integer\<close>
  "toFixed env x f =
     (if 100 < f then Inl RangeError
      else
        let s = (if x < 0 then ''-'' else '''');
            ax = (if x < 0 then - x else x)
        in if 10 ^ 21 \<le> ax then Inr (s @ String_of_number env ax)
           else
             let n = nat \<lfloor>ax * 10 ^ f + 1 / 2\<rfloor>;
                 m = show_nat n
             in if f = 0 then Inr (s @ m)
                else
                  let m' = (if length m \<le> f then replicate (f + 1 - length m) CHR ''0'' @ m else m);
                      k = length m'
                  in Inr (s @ take (k - f) m' @ ''.'' @ drop (k - f) m'))"

subsection \<open>Dates: \<^verbatim>\<open>new Date(s)\<close>\<close>

definition InLeapYear :: "nat \<Rightarrow> bool" where
  "InLeapYear y \<longleftrightarrow> (y mod 4 = 0 \<and> y mod 100 \<noteq> 0) \<or> y mod 400 = 0"

definition month_lengths :: "nat \<Rightarrow> nat list" where
  "month_lengths y = [31, if InLeapYear y then 29 else 28, 31, 30, 31, 30, 31, 31, 30, 31, 30, 31]"

definition DayFromYear :: "int \<Rightarrow> int" where
  \<comment> \<open>the day number of 1 January of year \<open>y\<close>, counted from 1 January 1970\<close>
  "DayFromYear y =
     365 * (y - 1970) + (y - 1969) div 4 - (y - 1901) div 100 + (y - 1601) div 400"

definition MakeDay :: "nat \<Rightarrow> nat \<Rightarrow> nat \<Rightarrow> int" where
  \<comment> \<open>the day number of year \<open>y\<close>, month \<open>m\<close> (from 1), day \<open>d\<close> (from 1)\<close>
  "MakeDay y m d = DayFromYear (int y) + int (sum_list (take (m - 1) (month_lengths y))) + int d - 1"

definition msPerDay :: int where
  "msPerDay = 86400000"

definition parse_iso_date :: "string \<Rightarrow> int option" where
  \<comment> \<open>the date-only form \<^verbatim>\<open>YYYY-MM-DD\<close> of the ECMAScript date-time string format, read as
      midnight UTC; only dates of the calendar are taken here\<close>
  "parse_iso_date s =
     (if length s = 10 \<and> s ! 4 = CHR ''-'' \<and> s ! 7 = CHR ''-''
         \<and> list_all is_digit (take 4 s) \<and> list_all is_digit (take 2 (drop 5 s))
         \<and> list_all is_digit (drop 8 s)
      then
        let y = digits_value 10 (take 4 s);
            m = digits_value 10 (take 2 (drop 5 s));
            d = digits_value 10 (drop 8 s)
        in if 1 \<le> m \<and> m \<le> 12 \<and> 1 \<le> d \<and> d \<le> month_lengths y ! (m - 1)
           then Some (MakeDay y m d * msPerDay) else None
      else None)"

definition new_Date :: "js_env \<Rightarrow> string \<Rightarrow> int option" where
  \<comment> \<open>\<^verbatim>\<open>new Date(s)\<close>: the time value, \<open>None\<close> for an invalid date
      (\<^verbatim>\<open>isNaN(d.getTime())\<close>)\<close>
  "new_Date env s =
     (case parse_iso_date s of Some t \<Rightarrow> Some t | None \<Rightarrow> Date_parse_other env s)"

section \<open>SpreadsheetGrid: parsing, formatting, computed columns, validation\<close>

subsection \<open>The column schema (ColumnPanel)\<close>

datatype ColumnType = Untyped | Date | Text | Number | Currency | Percent | Enum | Computed

datatype ComputedKind = Divide | Subtract | Date_diff_years | Unknown_kind
  \<comment> \<open>\<open>Unknown_kind\<close> stands for every other string a stored spec may carry\<close>

record ComputedSpec =
  kind :: ComputedKind
  inputs :: "string list"

datatype DateFormat = Iso | Mdy

record ColumnFormat =
  decimals :: "nat option"
    \<comment> \<open>the digit count \<^verbatim>\<open>toFixed\<close> takes; the column panel clamps it to 0..8\<close>
  dateFormat :: "DateFormat option"

text \<open>
  An optional field of the source is an \<open>option\<close>. The fields \<^verbatim>\<open>id\<close>, \<^verbatim>\<open>name\<close> and \<^verbatim>\<open>type\<close>
  of a column are \<open>col_id\<close>, \<open>col_name\<close> and \<open>col_type\<close> here.
\<close>

record ColumnDef =
  col_id :: string
  col_name :: string
  col_type :: ColumnType
  required :: bool
  description :: string
  enumValues :: "string list"
  computed :: "ComputedSpec option"
  format :: "ColumnFormat option"

subsection \<open>Permissive parsing\<close>

definition strip_punctuation :: "string \<Rightarrow> string" where
  \<comment> \<open>\<^verbatim>\<open>v.replace(/[$,%\s,]/g, "")\<close>\<close>
  "strip_punctuation v =
     filter (\<lambda>c. \<not> (c = CHR ''$'' \<or> c = CHR '','' \<or> c = CHR ''%'' \<or> is_space c)) v"

definition toNumberLike :: "string \<Rightarrow> rat option" where
  "toNumberLike s =
     (let v = trim s in
      if v = [] then None
      else
        let normalized = strip_punctuation v;
            n = js_Number normalized
        in case n of Num q \<Rightarrow> Some q | _ \<Rightarrow> None)"

definition toDateLike :: "js_env \<Rightarrow> string \<Rightarrow> int option" where
  "toDateLike env s =
     (let v = trim s in
      if v = [] then None else new_Date env v)"

definition formatNumber :: "js_env \<Rightarrow> rat \<Rightarrow> nat \<Rightarrow> js_error + string" where
  "formatNumber env n decs = toFixed env n decs"

definition formatDate :: "js_env \<Rightarrow> int \<Rightarrow> DateFormat \<Rightarrow> string" where
  "formatDate env d fmt =
     (let yyyy = getFullYear env d;
          mm = getMonth env d + 1;
          dd = getDate env d
      in if fmt = Iso then
           show_int yyyy @ ''-'' @ padStart 2 CHR ''0'' (show_nat mm)
             @ ''-'' @ padStart 2 CHR ''0'' (show_nat dd)
         else show_nat mm @ ''/'' @ show_nat dd @ ''/'' @ show_int yyyy)"

subsection \<open>Computed columns\<close>

record ComputedResult =
  r_value :: string
  r_error :: "string option"

definition failure :: "string \<Rightarrow> ComputedResult" where
  \<comment> \<open>\<^verbatim>\<open>{ value: "", error: msg }\<close>\<close>
  "failure msg = \<lparr>r_value = [], r_error = Some msg\<rparr>"

definition success :: "string \<Rightarrow> ComputedResult" where
  \<comment> \<open>\<^verbatim>\<open>{ value: v, error: null }\<close>\<close>
  "success v = \<lparr>r_value = v, r_error = None\<rparr>"

definition input_at :: "string list \<Rightarrow> nat \<Rightarrow> string" where
  \<comment> \<open>\<^verbatim>\<open>spec.inputs?.[i] ?? ""\<close>\<close>
  "input_at xs i = (if i < length xs then xs ! i else [])"

definition row_value :: "(string \<rightharpoonup> string) \<Rightarrow> string \<Rightarrow> string" where
  \<comment> \<open>\<^verbatim>\<open>id ? rowValuesById[id] ?? "" : ""\<close>\<close>
  "row_value rowValuesById i =
     (if i = [] then [] else case rowValuesById i of None \<Rightarrow> [] | Some v \<Rightarrow> v)"

definition years_between :: "int \<Rightarrow> int \<Rightarrow> rat" where
  \<comment> \<open>\<^verbatim>\<open>(end.getTime() - start.getTime()) / (1000 * 60 * 60 * 24 * 365.25)\<close>\<close>
  "years_between start end' = of_int (end' - start) / (1000 * 60 * 60 * 24 * (36525 / 100))"

definition computeValue :: "js_env \<Rightarrow> ColumnDef \<Rightarrow> (string \<rightharpoonup> string) \<Rightarrow> ComputedResult" where
  "computeValue env col rowValuesById =
     (case computed col of
        None \<Rightarrow> failure ''Missing computed spec''
      | Some spec \<Rightarrow>
          let aId = input_at (inputs spec) 0;
              bId = input_at (inputs spec) 1;
              aRaw = row_value rowValuesById aId;
              bRaw = row_value rowValuesById bId
          in if aId = [] \<or> bId = [] then failure ''Select input columns''
             else if kind spec = Divide then
               (case toNumberLike aRaw of
                  None \<Rightarrow> failure ''Inputs must be numbers''
                | Some a \<Rightarrow>
                    (case toNumberLike bRaw of
                       None \<Rightarrow> failure ''Inputs must be numbers''
                     | Some b \<Rightarrow>
                         if b = 0 then failure ''Divide by zero''
                         else success (String_of_number env (a / b))))
             else if kind spec = Subtract then
               (case toNumberLike aRaw of
                  None \<Rightarrow> failure ''Inputs must be numbers''
                | Some a \<Rightarrow>
                    (case toNumberLike bRaw of
                       None \<Rightarrow> failure ''Inputs must be numbers''
                     | Some b \<Rightarrow> success (String_of_number env (a - b))))
             else if kind spec = Date_diff_years then
               (case toDateLike env aRaw of
                  None \<Rightarrow> failure ''Inputs must be dates''
                | Some start \<Rightarrow>
                    (case toDateLike env bRaw of
                       None \<Rightarrow> failure ''Inputs must be dates''
                     | Some end' \<Rightarrow> success (String_of_number env (years_between start end'))))
             else failure ''Unknown computed operation'')"


subsection \<open>Validation and formatting on blur\<close>

definition enum_message :: "string list \<Rightarrow> string" where
  "enum_message opts = ''Must be one of: '' @ join '', '' opts"

definition validateCell :: "js_env \<Rightarrow> ColumnDef \<Rightarrow> string \<Rightarrow> string option" where
  \<comment> \<open>SpreadsheetGrid's \<^verbatim>\<open>validateCell\<close>: \<open>None\<close> is \<^verbatim>\<open>null\<close>, a valid cell\<close>
  "validateCell env col raw =
     (if col_type col = Computed then None
      else if col_type col = Untyped then None
      else
        let v = trim raw in
        if required col \<and> v = [] then Some ''Required''
        else if v = [] then None
        else
          (case col_type col of
             Text \<Rightarrow> None
           | Number \<Rightarrow>
               (case toNumberLike v of None \<Rightarrow> Some ''Must be a number'' | Some n \<Rightarrow> None)
           | Currency \<Rightarrow>
               (case toNumberLike v of None \<Rightarrow> Some ''Must be a currency amount'' | Some n \<Rightarrow> None)
           | Percent \<Rightarrow>
               (case toNumberLike v of
                  None \<Rightarrow> Some ''Must be a percent''
                | Some n \<Rightarrow> if n < - 100 \<or> n > 1000 then Some ''Percent looks off'' else None)
           | Date \<Rightarrow>
               (case toDateLike env v of None \<Rightarrow> Some ''Invalid date'' | Some d \<Rightarrow> None)
           | Enum \<Rightarrow>
               (let opts = enumValues col in
                if opts = [] then Some ''Enum has no options''
                else if v \<in> set opts then None
                else Some (enum_message opts))
           | _ \<Rightarrow> None))"

definition applyFormattingOnBlur :: "js_env \<Rightarrow> ColumnDef \<Rightarrow> string \<Rightarrow> js_error + string" where
  \<comment> \<open>\<open>Inl RangeError\<close> is the exception \<^verbatim>\<open>toFixed\<close> throws for more than 100 decimals\<close>
  "applyFormattingOnBlur env col raw =
     (let v = trim raw in
      if v = [] then Inr []
      else
        let decs = (case format col of
                      None \<Rightarrow> 2
                    | Some f \<Rightarrow> (case decimals f of None \<Rightarrow> 2 | Some d \<Rightarrow> d))
        in if col_type col = Number \<or> col_type col = Currency then
             (case toNumberLike v of
                None \<Rightarrow> Inr raw
              | Some n \<Rightarrow> formatNumber env n decs)
           else if col_type col = Percent then
             (case toNumberLike v of
                None \<Rightarrow> Inr raw
              | Some n \<Rightarrow>
                  (case formatNumber env n decs of
                     Inl e \<Rightarrow> Inl e
                   | Inr s \<Rightarrow> Inr (s @ ''%'')))
           else if col_type col = Date then
             (case toDateLike env v of
                None \<Rightarrow> Inr raw
              | Some d \<Rightarrow>
                  let fmt = (case format col of
                               None \<Rightarrow> Iso
                             | Some f \<Rightarrow> (case dateFormat f of None \<Rightarrow> Iso | Some x \<Rightarrow> x))
                  in Inr (formatDate env d fmt))
           else Inr raw)"

section \<open>DataGrid: the schema builder's validator\<close>

datatype SpecColumnType = SDate | SText | SNumber | SCurrency | SPercent | SEnum
  \<comment> \<open>DataGrid's own \<^verbatim>\<open>ColumnType\<close>: it has no untyped and no computed columns\<close>

record ColumnSpec =
  spec_id :: string
  spec_name :: string
  spec_type :: SpecColumnType
  spec_required :: bool
  spec_description :: "string option"
  spec_enumValues :: "string list option"

definition validateCell_DataGrid :: "js_env \<Rightarrow> ColumnSpec \<Rightarrow> string \<Rightarrow> string option" where
  \<comment> \<open>DataGrid's \<^verbatim>\<open>validateCell\<close>: each type strips its own punctuation only\<close>
  "validateCell_DataGrid env col raw =
     (let v = trim raw in
      if spec_required col \<and> length v = 0 then Some ''Required''
      else if length v = 0 then None
      else
        (case spec_type col of
           SText \<Rightarrow> None
         | SNumber \<Rightarrow>
             (let n = js_Number v in
              if Number_isFinite n then None else Some ''Must be a number'')
         | SCurrency \<Rightarrow>
             (let normalized = filter (\<lambda>c. \<not> (c = CHR ''$'' \<or> c = CHR '','')) v;
                  n = js_Number normalized
              in if Number_isFinite n then None else Some ''Must be a currency amount'')
         | SPercent \<Rightarrow>
             (let normalized = filter (\<lambda>c. c \<noteq> CHR ''%'') v;
                  n = js_Number normalized
              in case n of
                   Num q \<Rightarrow> if q < - 100 \<or> q > 1000 then Some ''Percent looks off'' else None
                 | _ \<Rightarrow> Some ''Must be a percent'')
         | SDate \<Rightarrow>
             (case new_Date env v of None \<Rightarrow> Some ''Invalid date'' | Some d \<Rightarrow> None)
         | SEnum \<Rightarrow>
             (let opts = (case spec_enumValues col of None \<Rightarrow> [] | Some xs \<Rightarrow> xs) in
              if length opts = 0 then Some ''Enum has no options''
              else if v \<in> set opts then None
              else Some (enum_message opts))))"

section \<open>Workbook: the cell matrix\<close>

type_synonym SheetCellMatrix = "string list list"

definition makeEmptyCells :: "nat \<Rightarrow> nat \<Rightarrow> SheetCellMatrix" where
  "makeEmptyCells rows cols = replicate rows (replicate cols [])"

definition cell_at :: "SheetCellMatrix \<Rightarrow> nat \<Rightarrow> nat \<Rightarrow> string" where
  \<comment> \<open>the defensive read \<^verbatim>\<open>cells?.[r]?.[c] ?? ""\<close>\<close>
  "cell_at cells r c = (if r < length cells \<and> c < length (cells ! r) then cells ! r ! c else [])"

definition set_at :: "string list \<Rightarrow> nat \<Rightarrow> string \<Rightarrow> string list" where
  \<comment> \<open>\<^verbatim>\<open>row[c] = v\<close>: an index past the end extends the array; the holes it leaves read
      as \<^verbatim>\<open>undefined\<close>, which every read of the program turns into \<^verbatim>\<open>""\<close>\<close>
  "set_at row c v =
     (if c < length row then row[c := v] else row @ replicate (c - length row) [] @ [v])"

definition set_cell :: "SheetCellMatrix \<Rightarrow> nat \<Rightarrow> nat \<Rightarrow> string \<Rightarrow> SheetCellMatrix" where
  \<comment> \<open>\<^verbatim>\<open>m[r][c] = v\<close>, called with \<open>r < length m\<close> only (both loops below bound \<open>r\<close>
      by the number of rows)\<close>
  "set_cell m r c v = m[r := set_at (m ! r) c v]"

definition resize_row :: "SheetCellMatrix \<Rightarrow> nat \<Rightarrow> nat \<Rightarrow> SheetCellMatrix \<Rightarrow> SheetCellMatrix" where
  \<comment> \<open>the inner loop of the resize effect, over the columns of row \<open>r\<close>\<close>
  "resize_row cells colCount r normalized =
     foldl (\<lambda>n c. set_cell n r c (cell_at cells r c)) normalized [0..<colCount]"

definition resizeCells :: "SheetCellMatrix \<Rightarrow> nat \<Rightarrow> nat \<Rightarrow> SheetCellMatrix" where
  \<comment> \<open>the effect that runs when \<^verbatim>\<open>columns.length\<close> or \<^verbatim>\<open>rowCount\<close> changes: the matrix
      it passes to \<^verbatim>\<open>setCells\<close>\<close>
  "resizeCells cells rowCount colCount =
     foldl (\<lambda>n r. resize_row cells colCount r n) (makeEmptyCells rowCount colCount) [0..<rowCount]"





section \<open>Loading persisted state\<close>














section \<open>An example host\<close>

text \<open>
  The theorems below hold for every environment. The examples run on one: a host at a fixed
  offset from UTC whose \<^verbatim>\<open>Date.parse\<close> takes the date-only ISO form alone, and whose
  \<^verbatim>\<open>String\<close> prints a number by its decimal expansion (exact for integers and short
  decimal fractions, cut after 17 fraction digits otherwise; the exponent notation of very
  large and very small values is left out).
\<close>

fun fraction_digits :: "nat \<Rightarrow> rat \<Rightarrow> string" where
  "fraction_digits 0 x = []"
| "fraction_digits (Suc n) x =
     (if x = 0 then []
      else digit_char (nat \<lfloor>x * 10\<rfloor>) # fraction_digits n (x * 10 - of_int \<lfloor>x * 10\<rfloor>))"

definition decimal_string :: "rat \<Rightarrow> string" where
  "decimal_string q =
     (let s = (if q < 0 then ''-'' else '''');
          a = \<bar>q\<bar>;
          whole = show_nat (nat \<lfloor>a\<rfloor>);
          part = a - of_int \<lfloor>a\<rfloor>
      in if part = 0 then s @ whole else s @ whole @ ''.'' @ fraction_digits 17 part)"

definition civil_from_days :: "int \<Rightarrow> int \<times> nat \<times> nat" where
  \<comment> \<open>year, month (from 1) and day of the month of a day number counted from
      1 January 1970, in the proleptic Gregorian calendar\<close>
  "civil_from_days z =
     (let z' = z + 719468;
          era = z' div 146097;
          doe = z' - era * 146097;
          yoe = (doe - doe div 1460 + doe div 36524 - doe div 146096) div 365;
          doy = doe - (365 * yoe + yoe div 4 - yoe div 100);
          mp = (5 * doy + 2) div 153;
          d = doy - (153 * mp + 2) div 5 + 1;
          m = (if mp < 10 then mp + 3 else mp - 9);
          y = yoe + era * 400 + (if m \<le> 2 then 1 else 0)
      in (y, nat m, nat d))"

definition host :: "int \<Rightarrow> js_env" where
  \<comment> \<open>a host whose local time is \<open>offset\<close> minutes ahead of UTC\<close>
  "host offset =
     \<lparr>String_of_number = decimal_string,
      Date_parse_other = (\<lambda>s. None),
      getFullYear = (\<lambda>t. fst (civil_from_days ((t + offset * 60000) div msPerDay))),
      getMonth = (\<lambda>t. fst (snd (civil_from_days ((t + offset * 60000) div msPerDay))) - 1),
      getDate = (\<lambda>t. snd (snd (civil_from_days ((t + offset * 60000) div msPerDay))))\<rparr>"

definition column_of_type :: "ColumnType \<Rightarrow> bool \<Rightarrow> ColumnDef" where
  \<comment> \<open>a column of the given type and \<^verbatim>\<open>required\<close> flag, as \<^verbatim>\<open>makeDefaultColumns\<close>
      and the column panel build it\<close>
  "column_of_type t req =
     \<lparr>col_id = ''col_0'', col_name = ''A'', col_type = t, required = req, description = [],
      enumValues = [], computed = None, format = None\<rparr>"

definition computed_column :: "ComputedKind \<Rightarrow> string list \<Rightarrow> ColumnDef" where
  "computed_column k ids =
     \<lparr>col_id = ''col_2'', col_name = ''C'', col_type = Computed, required = False,
      description = [], enumValues = [],
      computed = Some \<lparr>kind = k, inputs = ids\<rparr>, format = Some \<lparr>decimals = Some 4, dateFormat = None\<rparr>\<rparr>"

definition spec_column_of_type :: "SpecColumnType \<Rightarrow> bool \<Rightarrow> ColumnSpec" where
  \<comment> \<open>a schema builder column of the given type and \<^verbatim>\<open>required\<close> flag\<close>
  "spec_column_of_type t req =
     \<lparr>spec_id = ''value'', spec_name = ''Value'', spec_type = t, spec_required = req,
      spec_description = None, spec_enumValues = None\<rparr>"

section \<open>Properties of the cell matrix\<close>

subsection \<open>Resizing\<close>

lemma resize_row_prefix:
  assumes "r < length n" and "k \<le> length (n ! r)"
  shows "foldl (\<lambda>n c. set_cell n r c (f c)) n [0..<k] = n[r := map f [0..<k] @ drop k (n ! r)]"
  using assms
proof (induction k)
  case 0
  then show ?case by simp
next
  case (Suc k)
  have k: "k < length (n ! r)" using Suc.prems by simp
  have "foldl (\<lambda>n c. set_cell n r c (f c)) n [0..<Suc k]
      = set_cell (n[r := map f [0..<k] @ drop k (n ! r)]) r k (f k)"
    using Suc by simp
  also have "\<dots> = n[r := (map f [0..<k] @ drop k (n ! r))[k := f k]]"
    using Suc.prems k by (simp add: set_cell_def set_at_def)
  also have "(map f [0..<k] @ drop k (n ! r))[k := f k] = map f [0..<Suc k] @ drop (Suc k) (n ! r)"
    using k by (simp add: list_update_append upd_conv_take_nth_drop)
  finally show ?case .
qed

lemma resize_row_eq:
  assumes "r < length n" and "length (n ! r) = colCount"
  shows "resize_row cells colCount r n = n[r := map (\<lambda>c. cell_at cells r c) [0..<colCount]]"
  using resize_row_prefix [OF assms(1), of colCount "\<lambda>c. cell_at cells r c"] assms(2)
  by (simp add: resize_row_def)

lemma resize_rows_prefix:
  "j \<le> rowCount \<Longrightarrow>
   foldl (\<lambda>n r. resize_row cells colCount r n) (makeEmptyCells rowCount colCount) [0..<j]
     = map (\<lambda>r. map (\<lambda>c. cell_at cells r c) [0..<colCount]) [0..<j]
       @ replicate (rowCount - j) (replicate colCount [])"
proof (induction j)
  case 0
  then show ?case by (simp add: makeEmptyCells_def)
next
  case (Suc j)
  let ?done = "map (\<lambda>r. map (\<lambda>c. cell_at cells r c) [0..<colCount]) [0..<j]"
  let ?n = "?done @ replicate (rowCount - j) (replicate colCount [])"
  have j: "j < rowCount" using Suc.prems by simp
  have len: "j < length ?n" using j by simp
  have row: "length (?n ! j) = colCount" using j by (simp add: nth_append)
  have "foldl (\<lambda>n r. resize_row cells colCount r n) (makeEmptyCells rowCount colCount) [0..<Suc j]
      = resize_row cells colCount j ?n"
    using Suc by simp
  also have "\<dots> = ?n[j := map (\<lambda>c. cell_at cells j c) [0..<colCount]]"
    using resize_row_eq [OF len row] .
  also have "\<dots> = ?done @ (replicate (rowCount - j) (replicate colCount []))[0 := map (\<lambda>c. cell_at cells j c) [0..<colCount]]"
    by (simp add: list_update_append)
  also have "replicate (rowCount - j) (replicate colCount ([]::string)) = replicate colCount [] # replicate (rowCount - Suc j) (replicate colCount [])"
    using j by (metis Suc_diff_Suc replicate_Suc)
  finally show ?case by simp
qed

lemma resizeCells_eq:
  "resizeCells cells rowCount colCount
     = map (\<lambda>r. map (\<lambda>c. cell_at cells r c) [0..<colCount]) [0..<rowCount]"
  using resize_rows_prefix [of rowCount rowCount cells colCount]
  by (simp add: resizeCells_def)

lemma resizeCells_nth:
  assumes "r < rowCount" and "c < colCount"
  shows "resizeCells cells rowCount colCount ! r ! c = cell_at cells r c"
  using assms by (simp add: resizeCells_eq)

lemma length_resizeCells: "length (resizeCells cells rowCount colCount) = rowCount"
  by (simp add: resizeCells_eq)

lemma length_resizeCells_row:
  "r < rowCount \<Longrightarrow> length (resizeCells cells rowCount colCount ! r) = colCount"
  by (simp add: resizeCells_eq)

lemma cell_at_resizeCells:
  "cell_at (resizeCells cells rowCount colCount) r c =
     (if r < rowCount \<and> c < colCount then cell_at cells r c else [])"
proof -
  let ?X = "resizeCells cells rowCount colCount"
  have read: "cell_at ?X r c = (if r < length ?X \<and> c < length (?X ! r) then ?X ! r ! c else [])"
    by (rule cell_at_def)
  show ?thesis
  proof (cases "r < rowCount")
    case True
    then show ?thesis
      unfolding read by (simp add: length_resizeCells length_resizeCells_row resizeCells_nth)
  next
    case False
    then show ?thesis
      unfolding read by (simp add: length_resizeCells)
  qed
qed

text \<open>
  Claim C5. The resize effect builds a matrix of exactly \<open>rowCount\<close> rows of \<open>colCount\<close>
  cells. A position that the old matrix has keeps its old value, every other position holds
  the empty string. Resizing to \<open>(rows1, cols1)\<close> and then to \<open>(rows2, cols2)\<close> keeps only
  what survived the first resize: a position outside \<open>(rows1, cols1)\<close> is empty afterwards,
  whatever the original matrix held there.
\<close>

theorem resizeCells_reshapes:
  "length (resizeCells cells rowCount colCount) = rowCount
   \<and> (\<forall>r < rowCount. length (resizeCells cells rowCount colCount ! r) = colCount)
   \<and> (\<forall>r < rowCount. \<forall>c < colCount.
         resizeCells cells rowCount colCount ! r ! c =
           (if r < length cells \<and> c < length (cells ! r) then cells ! r ! c else []))
   \<and> (\<forall>r < rows2. \<forall>c < cols2.
         resizeCells (resizeCells cells rows1 cols1) rows2 cols2 ! r ! c =
           (if r < rows1 \<and> c < cols1 then cell_at cells r c else []))"
proof (intro conjI allI impI)
  show "length (resizeCells cells rowCount colCount) = rowCount"
    by (simp add: resizeCells_eq)
next
  fix r assume "r < rowCount"
  then show "length (resizeCells cells rowCount colCount ! r) = colCount"
    by (simp add: resizeCells_eq)
next
  fix r c assume "r < rowCount" "c < colCount"
  then show "resizeCells cells rowCount colCount ! r ! c =
      (if r < length cells \<and> c < length (cells ! r) then cells ! r ! c else [])"
    by (simp add: resizeCells_nth cell_at_def)
next
  fix r c assume "r < rows2" "c < cols2"
  then show "resizeCells (resizeCells cells rows1 cols1) rows2 cols2 ! r ! c =
      (if r < rows1 \<and> c < cols1 then cell_at cells r c else [])"
    by (simp add: resizeCells_nth cell_at_resizeCells)
qed

theorem resizeCells_reshapes_witness:
  "length (resizeCells [[''a'', ''b'', ''c'', ''d'', ''e''], [''f'', ''g'', ''h'', ''i'', ''j'']] 2 3) = 2
   \<and> length (resizeCells [[''a'', ''b'', ''c'', ''d'', ''e''], [''f'', ''g'', ''h'', ''i'', ''j'']] 2 3 ! 1) = 3
   \<and> resizeCells [[''a'', ''b'', ''c'', ''d'', ''e''], [''f'', ''g'', ''h'', ''i'', ''j'']] 2 3 ! 1 ! 2 = ''h''
   \<and> resizeCells (resizeCells [[''a'', ''b'', ''c'', ''d'', ''e''], [''f'', ''g'', ''h'', ''i'', ''j'']] 2 3) 2 5 ! 1 ! 2 = ''h''
   \<and> resizeCells (resizeCells [[''a'', ''b'', ''c'', ''d'', ''e''], [''f'', ''g'', ''h'', ''i'', ''j'']] 2 3) 2 5 ! 1 ! 4 = []
   \<and> resizeCells [[''a'', ''b'', ''c'', ''d'', ''e''], [''f'', ''g'', ''h'', ''i'', ''j'']] 3 2 ! 2 ! 1 = []"
  using resizeCells_reshapes
    [of "[[''a'', ''b'', ''c'', ''d'', ''e''], [''f'', ''g'', ''h'', ''i'', ''j'']]" 2 3 2 5 2 3]
    resizeCells_reshapes
    [of "[[''a'', ''b'', ''c'', ''d'', ''e''], [''f'', ''g'', ''h'', ''i'', ''j'']]" 3 2 0 0 0 0]
  by (simp add: cell_at_def)

subsection \<open>Fill-down\<close>














section \<open>Properties of computed columns\<close>

lemmas number_eval =
  toNumberLike_def trim_def is_space_def strip_punctuation_def js_Number_def
  StrDecimalLiteral_def StrUnsignedDecimalLiteral_def NonDecimalIntegerLiteral_def
  SignedInteger_def is_digit_def digits_value_def digit_value_def pow10_def Let_def




lemmas date_eval =
  toDateLike_def new_Date_def parse_iso_date_def trim_def is_space_def is_digit_def
  digits_value_def digit_value_def month_lengths_def MakeDay_def DayFromYear_def
  InLeapYear_def msPerDay_def Let_def

lemma years_between_days:
  "years_between start end' = (of_int (end' - start) / of_int msPerDay) / (36525 / 100)"
  by (simp add: years_between_def msPerDay_def)

text \<open>
  Claim C7, as the code has it. For the operation \<^verbatim>\<open>date_diff_years\<close> with both input ids
  set: when either input fails the permissive date parse the error is
  "Inputs must be dates"; otherwise the value is the string of the difference end - start
  in days divided by 365.25, which is negative when the end precedes the start. For the
  start "2020-01-01" and the end "2021-01-01" the two dates are 366 days apart (2020 is a
  leap year), so the value is 366 / 365.25 = 1464 / 1461, about 1.00205: it is 3 / 1461
  away from 1.0, more than two thousandths.
\<close>

theorem date_diff_years_value:
  "(computed col = Some spec \<and> kind spec = Date_diff_years
      \<and> input_at (inputs spec) 0 \<noteq> [] \<and> input_at (inputs spec) 1 \<noteq> []
      \<and> (toDateLike env (row_value rowValuesById (input_at (inputs spec) 0)) = None
          \<or> toDateLike env (row_value rowValuesById (input_at (inputs spec) 1)) = None) \<longrightarrow>
    computeValue env col rowValuesById = \<lparr>r_value = [], r_error = Some ''Inputs must be dates''\<rparr>)
   \<and> (computed col = Some spec \<and> kind spec = Date_diff_years
      \<and> input_at (inputs spec) 0 \<noteq> [] \<and> input_at (inputs spec) 1 \<noteq> []
      \<and> toDateLike env (row_value rowValuesById (input_at (inputs spec) 0)) = Some start
      \<and> toDateLike env (row_value rowValuesById (input_at (inputs spec) 1)) = Some end' \<longrightarrow>
    computeValue env col rowValuesById =
      \<lparr>r_value = String_of_number env ((of_int (end' - start) / 86400000) / (36525 / 100)),
       r_error = None\<rparr>
    \<and> (end' < start \<longrightarrow> (of_int (end' - start) / 86400000) / (36525 / 100) < (0::rat)))
   \<and> toDateLike env ''2020-01-01'' = Some 1577836800000
   \<and> toDateLike env ''2021-01-01'' = Some 1609459200000
   \<and> (of_int (1609459200000 - 1577836800000) / 86400000) / (36525 / 100) = (1464 / 1461 :: rat)
   \<and> \<bar>(1464 / 1461 :: rat) - 1\<bar> = 3 / 1461"
proof (intro conjI impI)
  assume "computed col = Some spec \<and> kind spec = Date_diff_years
      \<and> input_at (inputs spec) 0 \<noteq> [] \<and> input_at (inputs spec) 1 \<noteq> []
      \<and> (toDateLike env (row_value rowValuesById (input_at (inputs spec) 0)) = None
          \<or> toDateLike env (row_value rowValuesById (input_at (inputs spec) 1)) = None)"
  then show "computeValue env col rowValuesById
      = \<lparr>r_value = [], r_error = Some ''Inputs must be dates''\<rparr>"
    by (auto simp: computeValue_def failure_def Let_def split: option.splits)
next
  assume "computed col = Some spec \<and> kind spec = Date_diff_years
      \<and> input_at (inputs spec) 0 \<noteq> [] \<and> input_at (inputs spec) 1 \<noteq> []
      \<and> toDateLike env (row_value rowValuesById (input_at (inputs spec) 0)) = Some start
      \<and> toDateLike env (row_value rowValuesById (input_at (inputs spec) 1)) = Some end'"
  then show "computeValue env col rowValuesById =
      \<lparr>r_value = String_of_number env ((of_int (end' - start) / 86400000) / (36525 / 100)),
       r_error = None\<rparr>"
    by (simp add: computeValue_def success_def Let_def years_between_days msPerDay_def)
next
  assume "end' < start"
  then have "(of_int (end' - start) :: rat) < 0" by simp
  then show "(of_int (end' - start) / 86400000) / (36525 / 100) < (0::rat)"
    by (simp add: divide_neg_pos)
next
  show "toDateLike env ''2020-01-01'' = Some 1577836800000"
    by (simp add: date_eval)
next
  show "toDateLike env ''2021-01-01'' = Some 1609459200000"
    by (simp add: date_eval)
next
  show "(of_int (1609459200000 - 1577836800000) / 86400000) / (36525 / 100) = (1464 / 1461 :: rat)"
    by simp
next
  show "\<bar>(1464 / 1461 :: rat) - 1\<bar> = 3 / 1461"
    by simp
qed

theorem date_diff_years_value_witness:
  "computed (computed_column Date_diff_years [''start'', ''end''])
     = Some \<lparr>kind = Date_diff_years, inputs = [''start'', ''end'']\<rparr>
   \<and> computeValue (host 0) (computed_column Date_diff_years [''start'', ''end''])
        [''start'' \<mapsto> ''2020-01-01'', ''end'' \<mapsto> ''2021-01-01'']
       = \<lparr>r_value = String_of_number (host 0) (1464 / 1461), r_error = None\<rparr>
   \<and> computeValue (host 0) (computed_column Date_diff_years [''start'', ''end''])
        [''start'' \<mapsto> ''2021-01-01'', ''end'' \<mapsto> ''2020-01-01'']
       = \<lparr>r_value = String_of_number (host 0) (- 1464 / 1461), r_error = None\<rparr>
   \<and> toDateLike (host 0) ''soon'' = None
   \<and> computeValue (host 0) (computed_column Date_diff_years [''start'', ''end''])
        [''start'' \<mapsto> ''2020-01-01'', ''end'' \<mapsto> ''soon'']
       = \<lparr>r_value = [], r_error = Some ''Inputs must be dates''\<rparr>"
proof -
  let ?spec = "\<lparr>kind = Date_diff_years, inputs = [''start'', ''end'']\<rparr>"
  let ?col = "computed_column Date_diff_years [''start'', ''end'']"
  have spec: "computed ?col = Some ?spec" by (simp add: computed_column_def)
  have ids: "input_at (inputs ?spec) 0 = ''start''" "input_at (inputs ?spec) 1 = ''end''"
    by (simp_all add: input_at_def)
  have soon: "toDateLike (host 0) ''soon'' = None"
    by (simp add: date_eval host_def)
  note inst = date_diff_years_value [where col = ?col and spec = ?spec and env = "host 0"]
  have forward: "computeValue (host 0) ?col [''start'' \<mapsto> ''2020-01-01'', ''end'' \<mapsto> ''2021-01-01'']
      = \<lparr>r_value = String_of_number (host 0) (1464 / 1461), r_error = None\<rparr>"
    using inst [where rowValuesById = "[''start'' \<mapsto> ''2020-01-01'', ''end'' \<mapsto> ''2021-01-01'']"
        and start = 1577836800000 and end' = 1609459200000]
      spec ids by (simp add: row_value_def)
  have backward: "computeValue (host 0) ?col [''start'' \<mapsto> ''2021-01-01'', ''end'' \<mapsto> ''2020-01-01'']
      = \<lparr>r_value = String_of_number (host 0) (- 1464 / 1461), r_error = None\<rparr>"
    using inst [where rowValuesById = "[''start'' \<mapsto> ''2021-01-01'', ''end'' \<mapsto> ''2020-01-01'']"
        and start = 1609459200000 and end' = 1577836800000]
      spec ids by (simp add: row_value_def)
  have unparsed: "computeValue (host 0) ?col [''start'' \<mapsto> ''2020-01-01'', ''end'' \<mapsto> ''soon'']
      = \<lparr>r_value = [], r_error = Some ''Inputs must be dates''\<rparr>"
    using inst [where rowValuesById = "[''start'' \<mapsto> ''2020-01-01'', ''end'' \<mapsto> ''soon'']"]
      spec ids soon by (simp add: row_value_def)
  show ?thesis using spec forward backward soon unparsed by simp
qed

text \<open>
  The example of claim C7 as the specification states it fails: the value for the start
  "2020-01-01" and the end "2021-01-01" is 1464 / 1461, which is not within one thousandth
  of 1.0, let alone within a floating-point tolerance.
\<close>

theorem date_diff_years_leap_year_counterexample:
  "computeValue (host 0) (computed_column Date_diff_years [''start'', ''end''])
      [''start'' \<mapsto> ''2020-01-01'', ''end'' \<mapsto> ''2021-01-01'']
     = \<lparr>r_value = String_of_number (host 0) (1464 / 1461), r_error = None\<rparr>
   \<and> \<not> \<bar>(1464 / 1461 :: rat) - 1\<bar> \<le> 1 / 1000"
proof -
  have s: "toDateLike (host 0) ''2020-01-01'' = Some 1577836800000"
    by (simp add: date_eval)
  have e: "toDateLike (host 0) ''2021-01-01'' = Some 1609459200000"
    by (simp add: date_eval)
  have "computeValue (host 0) (computed_column Date_diff_years [''start'', ''end''])
      [''start'' \<mapsto> ''2020-01-01'', ''end'' \<mapsto> ''2021-01-01'']
     = \<lparr>r_value = String_of_number (host 0) (1464 / 1461), r_error = None\<rparr>"
    using s e
    by (simp add: computeValue_def computed_column_def input_at_def row_value_def success_def
        years_between_def Let_def)
  then show ?thesis by simp
qed

section \<open>Properties of validation and formatting\<close>

lemma trim_no_leading_space: "trim s \<noteq> [] \<Longrightarrow> \<not> is_space (hd (trim s))"
proof -
  assume ne: "trim s \<noteq> []"
  let ?t = "dropWhile is_space s"
  have "dropWhile is_space (rev ?t) = drop (length (takeWhile is_space (rev ?t))) (rev ?t)"
    by (rule dropWhile_eq_drop)
  then have u: "trim s = take (length ?t - length (takeWhile is_space (rev ?t))) ?t"
    by (simp add: trim_def rev_drop)
  then have "?t \<noteq> []" using ne by auto
  then have "\<not> is_space (hd ?t)" by (rule hd_dropWhile)
  moreover have "hd (trim s) = hd ?t" using u ne by (metis hd_take take_eq_Nil gr0I)
  ultimately show ?thesis by simp
qed

lemma trim_idem: "trim (trim s) = trim s"
proof -
  have lead: "dropWhile is_space (trim s) = trim s"
    using trim_no_leading_space [of s] by (auto simp: dropWhile_eq_self_iff)
  have "rev (trim s) = dropWhile is_space (rev (dropWhile is_space s))"
    by (simp add: trim_def)
  then have "dropWhile is_space (rev (trim s)) = rev (trim s)"
    by (simp only: dropWhile_idem)
  then show ?thesis
    unfolding trim_def [of "trim s"] lead by simp
qed

lemma toNumberLike_trim: "toNumberLike (trim s) = toNumberLike s"
  by (simp add: toNumberLike_def trim_idem)

lemma toDateLike_trim: "toDateLike env (trim s) = toDateLike env s"
  by (simp add: toDateLike_def trim_idem)

lemma trim_Nil: "trim [] = []"
  by (simp add: trim_def)

text \<open>
  Claim C3, as the code has it. SpreadsheetGrid's validator returns Valid for every untyped
  and every computed column before it looks at \<^verbatim>\<open>required\<close>. So the empty string is
  Invalid("Required") for every required column whose type is neither untyped nor computed,
  and Valid for every column that is not required and for every untyped or computed column.
  DataGrid's validator, whose columns are never untyped or computed, answers
  Invalid("Required") for every required column and Valid for every other one.
\<close>

theorem validateCell_empty_required:
  "(required col \<and> col_type col \<noteq> Untyped \<and> col_type col \<noteq> Computed \<longrightarrow>
      validateCell env col [] = Some ''Required'')
   \<and> (\<not> required col \<longrightarrow> validateCell env col [] = None)
   \<and> (col_type col = Untyped \<or> col_type col = Computed \<longrightarrow> validateCell env col raw = None)
   \<and> (spec_required scol \<longrightarrow> validateCell_DataGrid env scol [] = Some ''Required'')
   \<and> (\<not> spec_required scol \<longrightarrow> validateCell_DataGrid env scol [] = None)"
  by (auto simp: validateCell_def validateCell_DataGrid_def trim_Nil Let_def)

theorem validateCell_empty_required_witness:
  "required (column_of_type Number True)
   \<and> col_type (column_of_type Number True) = Number
   \<and> validateCell (host 0) (column_of_type Number True) [] = Some ''Required''
   \<and> validateCell (host 0) (column_of_type Number False) [] = None
   \<and> validateCell (host 0) (column_of_type Untyped True) ''anything'' = None
   \<and> validateCell (host 0) (column_of_type Computed True) [] = None
   \<and> validateCell_DataGrid (host 0) (spec_column_of_type SDate True) [] = Some ''Required''
   \<and> validateCell_DataGrid (host 0) (spec_column_of_type SNumber False) [] = None"
  using validateCell_empty_required [where col = "column_of_type Number True" and env = "host 0"
      and scol = "spec_column_of_type SDate True"]
    validateCell_empty_required [where col = "column_of_type Number False" and env = "host 0"
      and scol = "spec_column_of_type SNumber False"]
    validateCell_empty_required [where col = "column_of_type Untyped True" and env = "host 0"
      and raw = "''anything''"]
    validateCell_empty_required [where col = "column_of_type Computed True" and env = "host 0"
      and raw = "[]"]
  by (simp add: column_of_type_def spec_column_of_type_def)

text \<open>
  The claim as the specification states it, for every column type, fails on a required
  untyped column: the empty string is Valid there.
\<close>

theorem validateCell_required_untyped_counterexample:
  "required (column_of_type Untyped True)
   \<and> validateCell (host 0) (column_of_type Untyped True) [] = None
   \<and> validateCell (host 0) (column_of_type Untyped True) [] \<noteq> Some ''Required''"
  by (simp add: validateCell_def column_of_type_def)

text \<open>
  Number and currency columns. SpreadsheetGrid's validator accepts a cell that is not blank
  exactly when the permissive parse succeeds: the trimmed string, with every \<open>$\<close>, comma,
  \<open>%\<close> and white space removed, is a finite number for \<^verbatim>\<open>Number\<close>; otherwise the reason is
  "Must be a number" on a number column and "Must be a currency amount" on a currency
  column. DataGrid's validator strips less: nothing on a number column, \<open>$\<close> and commas on a
  currency column.
\<close>

theorem validateCell_number_currency:
  "((col_type col = Number \<or> col_type col = Currency) \<and> trim raw \<noteq> [] \<longrightarrow>
      validateCell env col raw =
        (if Number_isFinite (js_Number (strip_punctuation (trim raw))) then None
         else if col_type col = Number then Some ''Must be a number''
         else Some ''Must be a currency amount''))
   \<and> (col_type col = Number \<or> col_type col = Currency \<longrightarrow>
        validateCell env col ''$1,000'' = None
        \<and> validateCell env col ''1000'' = None
        \<and> validateCell env col ''  1000  '' = None)
   \<and> (spec_type scol = SNumber \<and> trim raw \<noteq> [] \<longrightarrow>
        validateCell_DataGrid env scol raw =
          (if Number_isFinite (js_Number (trim raw)) then None else Some ''Must be a number''))
   \<and> (spec_type scol = SCurrency \<and> trim raw \<noteq> [] \<longrightarrow>
        validateCell_DataGrid env scol raw =
          (if Number_isFinite
                (js_Number (filter (\<lambda>c. \<not> (c = CHR ''$'' \<or> c = CHR '','')) (trim raw)))
           then None else Some ''Must be a currency amount''))"
proof (intro conjI impI)
  assume a: "(col_type col = Number \<or> col_type col = Currency) \<and> trim raw \<noteq> []"
  have parse: "toNumberLike (trim raw) =
      (case js_Number (strip_punctuation (trim raw)) of Num q \<Rightarrow> Some q | _ \<Rightarrow> None)"
    using a by (simp add: toNumberLike_def trim_idem)
  show "validateCell env col raw =
      (if Number_isFinite (js_Number (strip_punctuation (trim raw))) then None
       else if col_type col = Number then Some ''Must be a number''
       else Some ''Must be a currency amount'')"
    using a unfolding validateCell_def Let_def parse
    by (cases "js_Number (strip_punctuation (trim raw))") auto
next
  assume a: "col_type col = Number \<or> col_type col = Currency"
  have "toNumberLike ''$1,000'' = Some 1000" by (simp add: number_eval)
  moreover have "trim ''$1,000'' = ''$1,000''" by (simp add: trim_def is_space_def)
  ultimately show "validateCell env col ''$1,000'' = None"
    using a by (auto simp: validateCell_def)
next
  assume a: "col_type col = Number \<or> col_type col = Currency"
  have "toNumberLike ''1000'' = Some 1000" by (simp add: number_eval)
  moreover have "trim ''1000'' = ''1000''" by (simp add: trim_def is_space_def)
  ultimately show "validateCell env col ''1000'' = None"
    using a by (auto simp: validateCell_def)
next
  assume a: "col_type col = Number \<or> col_type col = Currency"
  have "toNumberLike ''1000'' = Some 1000" by (simp add: number_eval)
  moreover have "trim ''  1000  '' = ''1000''" by (simp add: trim_def is_space_def)
  ultimately show "validateCell env col ''  1000  '' = None"
    using a by (auto simp: validateCell_def)
next
  assume "spec_type scol = SNumber \<and> trim raw \<noteq> []"
  then show "validateCell_DataGrid env scol raw =
      (if Number_isFinite (js_Number (trim raw)) then None else Some ''Must be a number'')"
    by (simp add: validateCell_DataGrid_def Let_def)
next
  assume "spec_type scol = SCurrency \<and> trim raw \<noteq> []"
  then show "validateCell_DataGrid env scol raw =
      (if Number_isFinite
            (js_Number (filter (\<lambda>c. \<not> (c = CHR ''$'' \<or> c = CHR '','')) (trim raw)))
       then None else Some ''Must be a currency amount'')"
    by (simp add: validateCell_DataGrid_def Let_def)
qed

theorem validateCell_number_currency_witness:
  "col_type (column_of_type Currency True) = Currency
   \<and> trim ''12 apples'' \<noteq> []
   \<and> \<not> Number_isFinite (js_Number (strip_punctuation (trim ''12 apples'')))
   \<and> validateCell (host 0) (column_of_type Currency True) ''12 apples'' = Some ''Must be a currency amount''
   \<and> validateCell (host 0) (column_of_type Number True) ''12 apples'' = Some ''Must be a number''
   \<and> validateCell (host 0) (column_of_type Number True) ''$1,000'' = None
   \<and> validateCell (host 0) (column_of_type Currency True) ''  1000  '' = None
   \<and> validateCell_DataGrid (host 0) (spec_column_of_type SNumber True) ''  1000  '' = None
   \<and> validateCell_DataGrid (host 0) (spec_column_of_type SCurrency True) ''$1,000'' = None"
proof -
  have t: "trim ''12 apples'' = ''12 apples''" "trim ''  1000  '' = ''1000''"
    "trim ''$1,000'' = ''$1,000''"
    by (simp_all add: trim_def is_space_def)
  have n: "js_Number (strip_punctuation ''12 apples'') = NaN" "js_Number ''1000'' = Num 1000"
    by (simp_all add: number_eval)
  have s: "filter (\<lambda>c. \<not> (c = CHR ''$'' \<or> c = CHR '','')) ''$1,000'' = ''1000''"
    by simp
  note inst = validateCell_number_currency [where env = "host 0"]
  have "validateCell (host 0) (column_of_type Currency True) ''12 apples''
      = Some ''Must be a currency amount''"
    using inst [where col = "column_of_type Currency True" and raw = "''12 apples''"] t n
    by (simp add: column_of_type_def)
  moreover have "validateCell (host 0) (column_of_type Number True) ''12 apples''
      = Some ''Must be a number''"
    using inst [where col = "column_of_type Number True" and raw = "''12 apples''"] t n
    by (simp add: column_of_type_def)
  moreover have "validateCell (host 0) (column_of_type Number True) ''$1,000'' = None"
    using inst [where col = "column_of_type Number True"] by (simp add: column_of_type_def)
  moreover have "validateCell (host 0) (column_of_type Currency True) ''  1000  '' = None"
    using inst [where col = "column_of_type Currency True"] by (simp add: column_of_type_def)
  moreover have "validateCell_DataGrid (host 0) (spec_column_of_type SNumber True) ''  1000  '' = None"
    using inst [where scol = "spec_column_of_type SNumber True" and raw = "''  1000  ''"] t n
    by (simp add: spec_column_of_type_def)
  moreover have "validateCell_DataGrid (host 0) (spec_column_of_type SCurrency True) ''$1,000'' = None"
    using inst [where scol = "spec_column_of_type SCurrency True" and raw = "''$1,000''"] t n s
    by (simp add: spec_column_of_type_def)
  ultimately show ?thesis using t n by (simp add: column_of_type_def)
qed

text \<open>
  Claim C4 at DataGrid's validator: a number column does not strip the currency sign and
  the comma, so "$1,000" is rejected there with "Must be a number", where SpreadsheetGrid's
  validator accepts it.
\<close>

theorem validateCell_DataGrid_number_rejects_currency_punctuation:
  "validateCell_DataGrid (host 0) (spec_column_of_type SNumber False) ''$1,000''
     = Some ''Must be a number''
   \<and> validateCell (host 0) (column_of_type Number False) ''$1,000'' = None"
proof -
  have "js_Number ''$1,000'' = NaN" by (simp add: number_eval)
  moreover have "trim ''$1,000'' = ''$1,000''" by (simp add: trim_def is_space_def)
  moreover have "toNumberLike ''$1,000'' = Some 1000" by (simp add: number_eval)
  ultimately show ?thesis
    by (simp add: validateCell_DataGrid_def validateCell_def spec_column_of_type_def
        column_of_type_def)
qed




text \<open>
  Claim C2 at a failing input. On a number column with the default two decimals the valid
  cell "-0.001" is formatted to "-0.00": \<^verbatim>\<open>toFixed\<close> takes the sign before it rounds. That
  result reads back as zero and is formatted to "0.00", so formatting a second time changes
  the cell again.
\<close>

theorem applyFormattingOnBlur_negative_zero_not_idempotent:
  "validateCell env (column_of_type Number False) ''-0.001'' = None
   \<and> applyFormattingOnBlur env (column_of_type Number False) ''-0.001'' = Inr ''-0.00''
   \<and> applyFormattingOnBlur env (column_of_type Number False) ''-0.00'' = Inr ''0.00''"
proof -
  have t: "trim ''-0.001'' = ''-0.001''" "trim ''-0.00'' = ''-0.00''"
    by (simp_all add: trim_def is_space_def)
  have n1: "toNumberLike ''-0.001'' = Some (- 1 / 1000)" by (simp add: number_eval)
  have n2: "toNumberLike ''-0.00'' = Some 0" by (simp add: number_eval)
  have f1: "toFixed env (- 1 / 1000) 2 = Inr ''-0.00''"
    by (simp add: toFixed_def Let_def show_nat.simps digit_char_def)
  have f2: "toFixed env 0 2 = Inr ''0.00''"
    by (simp add: toFixed_def Let_def show_nat.simps digit_char_def)
  show ?thesis
    using t n1 n2 f1 f2
    by (simp add: validateCell_def applyFormattingOnBlur_def formatNumber_def column_of_type_def)
qed

text \<open>
  A second failing input, on a host behind UTC. The ISO form is parsed as midnight UTC and
  printed from the local-time fields, so five hours behind UTC the cell "2024-03-05" is
  formatted to "2024-03-04", and that to "2024-03-03". On a host at UTC the cell stays.
\<close>

lemma applyFormattingOnBlur_iso_date_behind_utc:
  "applyFormattingOnBlur (host (- 300)) (column_of_type Date False) ''2024-03-05'' = Inr ''2024-03-04''
   \<and> applyFormattingOnBlur (host (- 300)) (column_of_type Date False) ''2024-03-04'' = Inr ''2024-03-03''
   \<and> applyFormattingOnBlur (host 0) (column_of_type Date False) ''2024-03-05'' = Inr ''2024-03-05''"
proof -
  have d5: "toDateLike env ''2024-03-05'' = Some 1709596800000" for env
    by (simp add: date_eval)
  have d4: "toDateLike env ''2024-03-04'' = Some 1709510400000" for env
    by (simp add: date_eval)
  have t: "trim ''2024-03-05'' = ''2024-03-05''" "trim ''2024-03-04'' = ''2024-03-04''"
    by (simp_all add: trim_def is_space_def)
  have c3: "civil_from_days 19785 = (2024, 3, 3)"
    by code_simp
  have c4: "civil_from_days 19786 = (2024, 3, 4)"
    by code_simp
  have c5: "civil_from_days 19787 = (2024, 3, 5)"
    by code_simp
  have s: "show_int 2024 = ''2024''" "show_nat 3 = ''3''" "show_nat 4 = ''4''" "show_nat 5 = ''5''"
    by (simp_all add: show_int_def show_nat.simps digit_char_def)
  have f1: "formatDate (host (- 300)) 1709596800000 Iso = ''2024-03-04''"
    using c4 s by (simp add: formatDate_def host_def msPerDay_def padStart_def Let_def)
  have f2: "formatDate (host (- 300)) 1709510400000 Iso = ''2024-03-03''"
    using c3 s by (simp add: formatDate_def host_def msPerDay_def padStart_def Let_def)
  have f3: "formatDate (host 0) 1709596800000 Iso = ''2024-03-05''"
    using c5 s by (simp add: formatDate_def host_def msPerDay_def padStart_def Let_def)
  show ?thesis
    using t d5 d4 f1 f2 f3
    by (simp add: applyFormattingOnBlur_def column_of_type_def)
qed

text \<open>
  Where the formatter does not rewrite the cell it is idempotent: on text, enum, untyped and
  computed columns, and on every column for a cell that does not parse.
\<close>

lemma applyFormattingOnBlur_idempotent_where_unformatted:
  assumes "col_type col = Text \<or> col_type col = Enum \<or> col_type col = Untyped
      \<or> col_type col = Computed
      \<or> ((col_type col = Number \<or> col_type col = Currency \<or> col_type col = Percent)
          \<and> toNumberLike raw = None)
      \<or> (col_type col = Date \<and> toDateLike env raw = None)"
    and "applyFormattingOnBlur env col raw = Inr s"
  shows "applyFormattingOnBlur env col s = Inr s"
proof (cases "trim raw = []")
  case True
  then have "s = []" using assms(2) by (simp add: applyFormattingOnBlur_def)
  then show ?thesis by (simp add: applyFormattingOnBlur_def trim_def)
next
  case False
  have "applyFormattingOnBlur env col raw = Inr raw"
    using assms(1) False
    by (auto simp: applyFormattingOnBlur_def Let_def toNumberLike_trim toDateLike_trim)
  then have "s = raw" using assms(2) by simp
  then show ?thesis using \<open>applyFormattingOnBlur env col raw = Inr raw\<close> by simp
qed

section \<open>Properties of the loaders\<close>




end
